theory Spec2Isabelle
  imports Main
begin

section \<open>The presentation layer: component state and event handlers\<close>

text \<open>
  \<^verbatim>\<open>App\<close> (src/src/App.jsx) and the standalone \<^verbatim>\<open>BrochAI\<close> component hold the same
  five \<^verbatim>\<open>useState\<close> cells. A handler is a closure over the values of one render and a
  sequence of setter calls and host calls (fetch, DOM, timers). It is modelled as a
  program over a world: the state cells and the log of host calls made so far.
\<close>

record app_state =
  companyName :: string
  companyUrl :: string
  loading :: bool
  success :: bool
  mounted :: bool

text \<open>Values thrown or used as rejection reasons.\<close>

datatype js_error = Error string | HostError string

text \<open>
  The value handed to \<^verbatim>\<open>JSON.stringify\<close>. The request body is kept as the serialisation
  of this value: \<open>JSON_stringify\<close> is a free constructor, so two bodies are equal exactly
  when the serialised values are.
\<close>

datatype json = JString string | JObject "(string \<times> json) list"

datatype body = JSON_stringify json

record request =
  req_url :: string
  req_method :: string
  req_headers :: "(string \<times> string) list"
  req_body :: body

type_synonym blob = string

text \<open>The anchor element built for the download: its \<^verbatim>\<open>href\<close> and \<^verbatim>\<open>download\<close> attributes.\<close>

record anchor =
  href :: string
  download :: string

text \<open>The callbacks handed to \<^verbatim>\<open>setTimeout\<close>, by name.\<close>

datatype callback = BrochAI_timeout

datatype effect =
    PreventDefault
  | Fetch request
  | CreateObjectURL blob
  | CreateElement string
  | AppendChild anchor
  | Click anchor
  | Remove anchor
  | RevokeObjectURL string
  | ConsoleError js_error
  | Alert string
  | SetTimeout callback nat

text \<open>A promise, by how it settles; \<open>Pending\<close> is a promise that never settles.\<close>

datatype 'a awaited = Fulfilled 'a | Rejected js_error | Pending

record response =
  ok :: bool
  blob_result :: "blob awaited"

text \<open>
  What the handler cannot decide: how the fetch settles, the object URL the browser
  makes for a blob, and which of the host calls that may throw do (\<open>None\<close>: the call
  returns).
\<close>

record env =
  fetch_result :: "response awaited"
  object_url :: "blob \<Rightarrow> string"
  throws :: "effect \<Rightarrow> js_error option"

record world =
  ui :: app_state
  log :: "effect list"

text \<open>
  How a piece of handler code ends: it returns a value, it throws, or it is suspended
  at an \<^verbatim>\<open>await\<close> on a promise that never settles.
\<close>

datatype 'a outcome = Done 'a | Thrown js_error | Waiting

type_synonym 'a prog = "world \<Rightarrow> 'a outcome \<times> world"

definition throw :: "js_error \<Rightarrow> 'a prog" where
  "throw e w = (Thrown e, w)"

definition bind :: "'a prog \<Rightarrow> ('a \<Rightarrow> 'b prog) \<Rightarrow> 'b prog" where
  "bind m f w =
     (case m w of
        (Done x, w1) \<Rightarrow> f x w1
      | (Thrown e, w1) \<Rightarrow> (Thrown e, w1)
      | (Waiting, w1) \<Rightarrow> (Waiting, w1))"

definition seq :: "unit prog \<Rightarrow> 'b prog \<Rightarrow> 'b prog" where
  "seq m n = bind m (\<lambda>_. n)"

definition await :: "'a awaited \<Rightarrow> 'a prog" where
  "await p w =
     (case p of
        Fulfilled x \<Rightarrow> (Done x, w)
      | Rejected e \<Rightarrow> (Thrown e, w)
      | Pending \<Rightarrow> (Waiting, w))"

text \<open>
  A host call that cannot throw (\<^verbatim>\<open>e.preventDefault()\<close>, starting a fetch, arming a
  timer): it is done and logged.
\<close>

definition emit :: "effect \<Rightarrow> unit prog" where
  "emit eff w = (Done (), w\<lparr>log := log w @ [eff]\<rparr>)"

text \<open>
  A host call that may throw (the DOM calls inside the \<^verbatim>\<open>try\<close> block, and
  \<^verbatim>\<open>console.error\<close> and \<^verbatim>\<open>alert\<close> in the \<^verbatim>\<open>catch\<close> block): it throws before doing
  anything, or it is done and logged.
\<close>

definition host :: "env \<Rightarrow> effect \<Rightarrow> unit prog" where
  "host en eff w =
     (case throws en eff of
        Some e \<Rightarrow> (Thrown e, w)
      | None \<Rightarrow> (Done (), w\<lparr>log := log w @ [eff]\<rparr>))"

text \<open>
  \<^verbatim>\<open>try { body } catch (err) { handler } finally { fin }\<close>: the finally block runs after
  the body or the handler has ended, also when the handler throws; it does not run while
  the body is suspended.
\<close>

definition run_finally :: "'a outcome \<Rightarrow> unit prog \<Rightarrow> 'a prog" where
  "run_finally r fin w =
     (case fin w of
        (Done _, w1) \<Rightarrow> (r, w1)
      | (Thrown e, w1) \<Rightarrow> (Thrown e, w1)
      | (Waiting, w1) \<Rightarrow> (Waiting, w1))"

definition try_catch_finally ::
  "'a prog \<Rightarrow> (js_error \<Rightarrow> 'a prog) \<Rightarrow> unit prog \<Rightarrow> 'a prog" where
  "try_catch_finally body handler fin w =
     (case body w of
        (Waiting, w1) \<Rightarrow> (Waiting, w1)
      | (Done x, w1) \<Rightarrow> run_finally (Done x) fin w1
      | (Thrown e, w1) \<Rightarrow>
          (case handler e w1 of
             (Waiting, w2) \<Rightarrow> (Waiting, w2)
           | (r, w2) \<Rightarrow> run_finally r fin w2))"

subsection \<open>The state setters\<close>

definition setCompanyName :: "string \<Rightarrow> unit prog" where
  "setCompanyName v w = (Done (), w\<lparr>ui := (ui w)\<lparr>companyName := v\<rparr>\<rparr>)"

definition setCompanyUrl :: "string \<Rightarrow> unit prog" where
  "setCompanyUrl v w = (Done (), w\<lparr>ui := (ui w)\<lparr>companyUrl := v\<rparr>\<rparr>)"

definition setLoading :: "bool \<Rightarrow> unit prog" where
  "setLoading v w = (Done (), w\<lparr>ui := (ui w)\<lparr>loading := v\<rparr>\<rparr>)"

definition setSuccess :: "bool \<Rightarrow> unit prog" where
  "setSuccess v w = (Done (), w\<lparr>ui := (ui w)\<lparr>success := v\<rparr>\<rparr>)"

definition setMounted :: "bool \<Rightarrow> unit prog" where
  "setMounted v w = (Done (), w\<lparr>ui := (ui w)\<lparr>mounted := v\<rparr>\<rparr>)"

subsection \<open>\<^verbatim>\<open>handleSubmit\<close> of App.jsx\<close>

text \<open>The request of lines 40 to 49, for the \<^verbatim>\<open>companyName\<close> and \<^verbatim>\<open>companyUrl\<close> of the render.\<close>

definition generate_request :: "string \<Rightarrow> string \<Rightarrow> request" where
  "generate_request cn cu =
     \<lparr>req_url = ''/generate-brochure'',
      req_method = ''POST'',
      req_headers = [(''Content-Type'', ''application/json'')],
      req_body = JSON_stringify
        (JObject [(''companyName'', JString cn), (''companyUrl'', JString cu)])\<rparr>"

text \<open>
  \<^verbatim>\<open>fetch\<close> sends the request and returns a promise; a failure is a rejection of
  the promise, which settles as the environment says.
\<close>

definition fetch :: "env \<Rightarrow> request \<Rightarrow> response prog" where
  "fetch en rq = seq (emit (Fetch rq)) (await (fetch_result en))"

text \<open>Lines 57 to 67: the blob is received and handed to the browser as a download.\<close>

definition download_blob :: "env \<Rightarrow> string \<Rightarrow> response \<Rightarrow> unit prog" where
  "download_blob en cn resp =
     bind (await (blob_result resp)) (\<lambda>b.
     seq (host en (CreateObjectURL b))
     (let url = object_url en b;
          a = \<lparr>href = url, download = cn @ ''_brochure.pdf''\<rparr>
      in seq (host en (CreateElement ''a''))
        (seq (host en (AppendChild a))
        (seq (host en (Click a))
        (seq (host en (Remove a))
             (host en (RevokeObjectURL url)))))))"

definition try_body :: "env \<Rightarrow> string \<Rightarrow> string \<Rightarrow> unit prog" where
  "try_body en cn cu =
     bind (fetch en (generate_request cn cu)) (\<lambda>resp.
       if \<not> ok resp then throw (Error ''Failed to generate brochure'')
       else seq (download_blob en cn resp) (setSuccess True))"

definition catch_block :: "env \<Rightarrow> js_error \<Rightarrow> unit prog" where
  "catch_block en err =
     seq (host en (ConsoleError err))
         (host en (Alert ''Error generating brochure. Check backend logs.''))"

definition handleSubmit :: "env \<Rightarrow> unit prog" where
  "handleSubmit en w =
     (let cn = companyName (ui w); cu = companyUrl (ui w)
      in seq (emit PreventDefault)
        (seq (setLoading True)
        (seq (setSuccess False)
             (try_catch_finally (try_body en cn cu) (catch_block en) (setLoading False)))) w)"

subsection \<open>\<^verbatim>\<open>handleSubmit\<close> of the standalone BrochAI component\<close>

definition BrochAI_handleSubmit :: "unit prog" where
  "BrochAI_handleSubmit =
     seq (emit PreventDefault)
    (seq (setLoading True)
    (seq (setSuccess False)
         (emit (SetTimeout BrochAI_timeout 2000))))"

text \<open>The arrow function handed to \<^verbatim>\<open>setTimeout\<close>, run when the timer fires.\<close>

fun run_callback :: "callback \<Rightarrow> unit prog" where
  "run_callback BrochAI_timeout = seq (setLoading False) (setSuccess True)"

subsection \<open>The Create Another button\<close>

text \<open>The \<^verbatim>\<open>onClick\<close> arrow of FormSection, with the setters App passes as props.\<close>

definition FormSection_createAnother :: "unit prog" where
  "FormSection_createAnother =
     seq (setSuccess False) (seq (setCompanyName '''') (setCompanyUrl ''''))"

text \<open>The same button inside the standalone BrochAI component.\<close>

definition BrochAI_createAnother :: "unit prog" where
  "BrochAI_createAnother =
     seq (setSuccess False) (seq (setCompanyName '''') (setCompanyUrl ''''))"

subsection \<open>What a run of a handler did\<close>

text \<open>The downloads a log holds: the anchors that were clicked, in order.\<close>

fun clicked :: "effect \<Rightarrow> anchor list" where
  "clicked (Click a) = [a]"
| "clicked _ = []"

definition downloads :: "effect list \<Rightarrow> anchor list" where
  "downloads l = concat (map clicked l)"

text \<open>The requests a log holds, in order.\<close>

fun requested :: "effect \<Rightarrow> request list" where
  "requested (Fetch rq) = [rq]"
| "requested _ = []"

definition requests :: "effect list \<Rightarrow> request list" where
  "requests l = concat (map requested l)"

text \<open>
  The environments in which \<^verbatim>\<open>handleSubmit\<close> of App.jsx stays suspended: the fetch never
  settles, or the response is ok and reading its blob never settles.
\<close>

definition suspended :: "env \<Rightarrow> bool" where
  "suspended en =
     (case fetch_result en of
        Pending \<Rightarrow> True
      | Rejected _ \<Rightarrow> False
      | Fulfilled resp \<Rightarrow> ok resp \<and> blob_result resp = Pending)"

text \<open>
  A run of host calls one after the other stops at the first one that throws: it logs
  the calls before that one.
\<close>

definition logged :: "env \<Rightarrow> effect list \<Rightarrow> effect list" where
  "logged en es = takeWhile (\<lambda>e. throws en e = None) es"

text \<open>The calls of the \<^verbatim>\<open>catch\<close> block, and the calls of lines 60 to 67 for a blob.\<close>

definition catch_calls :: "js_error \<Rightarrow> effect list" where
  "catch_calls err =
     [ConsoleError err, Alert ''Error generating brochure. Check backend logs.'']"

definition download_calls :: "env \<Rightarrow> string \<Rightarrow> blob \<Rightarrow> effect list" where
  "download_calls en cn b =
     (let a = \<lparr>href = object_url en b, download = cn @ ''_brochure.pdf''\<rparr>
      in [CreateObjectURL b, CreateElement ''a'', AppendChild a, Click a, Remove a,
          RevokeObjectURL (object_url en b)])"

text \<open>The world when the \<^verbatim>\<open>try\<close> statement of \<^verbatim>\<open>handleSubmit\<close> is entered.\<close>

definition started :: "world \<Rightarrow> world" where
  "started w = w\<lparr>log := log w @ [PreventDefault], ui := (ui w)\<lparr>loading := True, success := False\<rparr>\<rparr>"

text \<open>The state after a submission of the standalone component and the firing of its timer.\<close>

definition BrochAI_submitted :: "world \<Rightarrow> world" where
  "BrochAI_submitted w = snd (run_callback BrochAI_timeout (snd (BrochAI_handleSubmit w)))"

subsection \<open>Example inputs\<close>

definition acme_form :: world where
  "acme_form =
     \<lparr>ui = \<lparr>companyName = ''Acme'', companyUrl = ''https://acme.test'',
             loading = False, success = True, mounted = True\<rparr>,
      log = []\<rparr>"

definition backend_ok :: env where
  "backend_ok =
     \<lparr>fetch_result = Fulfilled \<lparr>ok = True, blob_result = Fulfilled ''%PDF-1.4''\<rparr>,
      object_url = (\<lambda>b. ''blob:acme''),
      throws = (\<lambda>e. None)\<rparr>"

definition backend_500 :: env where
  "backend_500 =
     \<lparr>fetch_result = Fulfilled \<lparr>ok = False, blob_result = Fulfilled ''Internal Server Error''\<rparr>,
      object_url = (\<lambda>b. ''blob:acme''),
      throws = (\<lambda>e. None)\<rparr>"

section \<open>The generation pipeline\<close>

text \<open>
  The sources hold the React front end only. The back end that \<^verbatim>\<open>handleSubmit\<close> posts
  to (\<^verbatim>\<open>main.py\<close>, \<^verbatim>\<open>scrape.py\<close>, \<^verbatim>\<open>ai_services.py\<close> and
  \<^verbatim>\<open>dynamic_pdf_generator.py\<close> in the README) is not among them, so the pipeline is
  modelled from the spec, sections 3, 4, 5 and 7. What the spec leaves to the network,
  an HTML parser, the language model or a tunable constant is a field of an environment
  record, and every definition says which sentences it follows.
\<close>

subsection \<open>Data model\<close>

text \<open>Modelled from the spec: the page categories of section 3 (the back end's types are missing).\<close>

datatype category = Home | About | Product | Contact | Other

text \<open>Modelled from the spec: \<^verbatim>\<open>PageContent\<close> and \<^verbatim>\<open>SiteContent\<close> of section 3.\<close>

record PageContent =
  page_url :: string
  page_title :: string
  page_category :: category
  textBlocks :: "string list"
  internalLinks :: "string list"

record SiteContent =
  rootUrl :: string
  sitePages :: "PageContent list"

text \<open>Modelled from the spec: the section types and \<^verbatim>\<open>Section\<close> of section 3.\<close>

datatype section_type =
  Cover | AboutSection | Offerings | ValueProposition | CallToAction | ContactSection

record Section =
  sectionType :: section_type
  heading :: string
  paragraphs :: "string list"
  bullets :: "string list option"

text \<open>
  Modelled from the spec: \<^verbatim>\<open>BrochureDocument\<close> of section 3. The binary stream is kept
  as the sequence of its rendered pages; a page records the section it renders (by
  position in the content), the template used, and the blocks laid out on it.
\<close>

record page =
  page_section :: nat
  page_template :: section_type
  page_heading :: string
  page_items :: "string list"

record BrochureDocument =
  doc_pages :: "page list"
  pageCount :: nat
  generatedAt :: nat
  doc_companyName :: string

text \<open>Modelled from the spec: the error kinds of section 7.\<close>

datatype error_kind =
  FetchRootFailed | ExtractionEmpty | EnrichmentUnavailable | EnrichmentInvalid
  | RenderFailure | Timeout

subsection \<open>SiteFetcher\<close>

text \<open>
  Modelled from the spec: what SiteFetcher (section 4.1) meets outside itself. A reply
  has a status and the time it took; a link has its anchor text and its target. The
  normalisation of the root URL, the network, the links found in a page, the test for
  the same registrable domain and the category an anchor text or path suggests are
  fields of the environment.
\<close>

record http_reply =
  status :: nat
  latency :: nat
  rawHtml :: string

record link =
  anchorText :: string
  target :: string

record fetcher_env =
  normalize_url :: "string \<Rightarrow> string"
  http_get :: "string \<Rightarrow> http_reply"
  candidate_links :: "string \<Rightarrow> link list"
  same_domain :: "string \<Rightarrow> string \<Rightarrow> bool"
  suggested :: "link \<Rightarrow> category"

text \<open>
  Modelled from the spec: one fetch (section 4.1, "a timed-out or non-2xx page is recorded
  as a fetch failure for that URL and excluded from output").
\<close>

definition fetch_page :: "fetcher_env \<Rightarrow> nat \<Rightarrow> string \<Rightarrow> (string \<times> string) option" where
  "fetch_page fe perRequestTimeout u =
     (let r = http_get fe u
      in if latency r \<le> perRequestTimeout \<and> 200 \<le> status r \<and> status r < 300
         then Some (u, rawHtml r) else None)"

text \<open>
  Modelled from the spec: the links that are prioritised (section 4.1, "links whose anchor
  text or path suggests about, product/service, contact categories over arbitrary links").
  The order among the links of one tier is the order of discovery.
\<close>

definition high_value :: "fetcher_env \<Rightarrow> link \<Rightarrow> bool" where
  "high_value fe l =
     (suggested fe l = About \<or> suggested fe l = Product \<or> suggested fe l = Contact)"

definition prioritize :: "fetcher_env \<Rightarrow> link list \<Rightarrow> link list" where
  "prioritize fe ls = filter (high_value fe) ls @ filter (\<lambda>l. \<not> high_value fe l) ls"

text \<open>
  Modelled from the spec: the candidate internal links of the root page ("same registrable
  domain only") and the truncation to \<^verbatim>\<open>maxPages - 1\<close> of them.
\<close>

definition internal_candidates :: "fetcher_env \<Rightarrow> string \<Rightarrow> string \<Rightarrow> link list" where
  "internal_candidates fe root h =
     filter (\<lambda>l. same_domain fe root (target l)) (candidate_links fe h)"

definition select_links :: "fetcher_env \<Rightarrow> nat \<Rightarrow> link list \<Rightarrow> link list" where
  "select_links fe maxPages cands = take (maxPages - 1) (prioritize fe cands)"

text \<open>
  Modelled from the spec: \<^verbatim>\<open>fetch(rootUrl, maxPages, perRequestTimeout)\<close> of section 4.1.
  The root is normalised and fetched first; its failure is \<^verbatim>\<open>FetchRootFailed\<close>
  (section 7); the pages of the selected links that fail are left out.
\<close>

definition SiteFetcher_fetch ::
  "fetcher_env \<Rightarrow> string \<Rightarrow> nat \<Rightarrow> nat \<Rightarrow> error_kind + (string \<times> string) list" where
  "SiteFetcher_fetch fe url maxPages perRequestTimeout =
     (let root = normalize_url fe url
      in case fetch_page fe perRequestTimeout root of
           None \<Rightarrow> Inl FetchRootFailed
         | Some (u, h) \<Rightarrow>
             Inr ((u, h) #
               List.map_filter (\<lambda>l. fetch_page fe perRequestTimeout (target l))
                 (select_links fe maxPages (internal_candidates fe root h))))"

subsection \<open>ContentExtractor\<close>

text \<open>
  Modelled from the spec: what ContentExtractor (section 4.2) leaves open. The text
  blocks of a page after stripping and segmenting, its title and links, the minimum
  block length ("a tunable constant"), whitespace normalisation, the category heuristic
  and the category priority of section 5 are fields of the environment.
\<close>

record extractor_env =
  text_blocks_of :: "string \<Rightarrow> string list"
  title_of :: "string \<Rightarrow> string"
  links_of :: "string \<Rightarrow> string list"
  minBlockLength :: nat
  normalize_ws :: "string \<Rightarrow> string"
  categorize :: "string \<Rightarrow> string \<Rightarrow> category"
  category_priority :: "category \<Rightarrow> nat"

text \<open>
  Modelled from the spec: the record of one page (section 4.2, blocks "below a minimum
  character-length threshold" are discarded; the category is a function of URL and title).
\<close>

definition extract_page :: "extractor_env \<Rightarrow> string \<times> string \<Rightarrow> PageContent" where
  "extract_page ee p =
     (case p of (u, h) \<Rightarrow>
        \<lparr>page_url = u,
         page_title = title_of ee h,
         page_category = categorize ee u (title_of ee h),
         textBlocks = filter (\<lambda>b. minBlockLength ee \<le> length b) (text_blocks_of ee h),
         internalLinks = links_of ee h\<rparr>)"

text \<open>
  Modelled from the spec: deduplication "across pages via exact-text comparison after
  whitespace normalization" (section 4.2). The first occurrence of a block stays.
\<close>

fun dedup_blocks ::
  "(string \<Rightarrow> string) \<Rightarrow> string list \<Rightarrow> string list \<Rightarrow> string list \<times> string list" where
  "dedup_blocks nw seen [] = ([], seen)"
| "dedup_blocks nw seen (b # bs) =
     (if nw b \<in> set seen then dedup_blocks nw seen bs
      else (case dedup_blocks nw (nw b # seen) bs of (kept, seen') \<Rightarrow> (b # kept, seen')))"

fun dedup_pages ::
  "(string \<Rightarrow> string) \<Rightarrow> string list \<Rightarrow> PageContent list \<Rightarrow> PageContent list" where
  "dedup_pages nw seen [] = []"
| "dedup_pages nw seen (p # ps) =
     (case dedup_blocks nw seen (textBlocks p) of
        (kept, seen') \<Rightarrow> p\<lparr>textBlocks := kept\<rparr> # dedup_pages nw seen' ps)"

text \<open>
  Modelled from the spec: \<^verbatim>\<open>extract\<close> of section 4.2. The pages are ordered by category
  priority (section 5), deduplicated, and the job fails with \<^verbatim>\<open>ExtractionEmpty\<close> "if,
  after filtering, zero text blocks remain across all pages". The root URL is that of
  the first fetched page.
\<close>

definition ContentExtractor_extract :: "extractor_env \<Rightarrow> (string \<times> string) list \<Rightarrow> error_kind + SiteContent" where
  "ContentExtractor_extract ee fetched =
     (case fetched of
        [] \<Rightarrow> Inl ExtractionEmpty
      | (u, h) # _ \<Rightarrow>
          (let ps = dedup_pages (normalize_ws ee) []
                      (sort_key (\<lambda>p. category_priority ee (page_category p))
                         (map (extract_page ee) fetched))
           in if concat (map textBlocks ps) = [] then Inl ExtractionEmpty
              else Inr \<lparr>rootUrl = u, sitePages = ps\<rparr>))"

subsection \<open>NarrativeEnricher\<close>

text \<open>
  Modelled from the spec: the structured data the language-model backend returns
  (section 4.3): sections whose type is still a string, to be checked against the schema.
\<close>

record raw_section =
  raw_type :: string
  raw_heading :: string
  raw_paragraphs :: "string list"
  raw_bullets :: "string list option"

datatype backend_reply = Unreachable | Reply "raw_section list"

text \<open>
  Modelled from the spec: what NarrativeEnricher (section 4.3) meets outside itself: the
  serialisation into a bounded prompt, the backend (its reply to a prompt, ordinary or
  with the stricter instruction, at a given attempt) and the attempt budget of section 7.
\<close>

record enricher_env =
  serialize :: "SiteContent \<Rightarrow> string \<Rightarrow> string"
  backend :: "string \<Rightarrow> bool \<Rightarrow> nat \<Rightarrow> backend_reply"
  maxAttempts :: nat

text \<open>Modelled from the spec: schema validation, the section types being those of section 3.\<close>

definition parse_section_type :: "string \<Rightarrow> section_type option" where
  "parse_section_type s =
     (if s = ''cover'' then Some Cover
      else if s = ''about'' then Some AboutSection
      else if s = ''offerings'' then Some Offerings
      else if s = ''valueProposition'' then Some ValueProposition
      else if s = ''callToAction'' then Some CallToAction
      else if s = ''contact'' then Some ContactSection
      else None)"

definition parse_section :: "raw_section \<Rightarrow> Section option" where
  "parse_section r =
     (case parse_section_type (raw_type r) of
        None \<Rightarrow> None
      | Some t \<Rightarrow>
          Some \<lparr>sectionType = t, heading = raw_heading r, paragraphs = raw_paragraphs r,
                bullets = raw_bullets r\<rparr>)"

definition validate_schema :: "raw_section list \<Rightarrow> Section list option" where
  "validate_schema rs = those (map parse_section rs)"

text \<open>
  Modelled from the spec: the invariant of section 3, "exactly one cover section first and
  exactly one callToAction or contact section last; all other types appear 0..n times in
  between".
\<close>

definition is_closing :: "section_type \<Rightarrow> bool" where
  "is_closing t = (t = CallToAction \<or> t = ContactSection)"

definition is_body :: "section_type \<Rightarrow> bool" where
  "is_body t = (t = AboutSection \<or> t = Offerings \<or> t = ValueProposition)"

definition satisfies_invariant :: "Section list \<Rightarrow> bool" where
  "satisfies_invariant ss =
     (case ss of
        [] \<Rightarrow> False
      | c # rest \<Rightarrow>
          sectionType c = Cover \<and> rest \<noteq> [] \<and> is_closing (sectionType (last rest)) \<and>
          list_all (\<lambda>s. is_body (sectionType s)) (butlast rest))"

text \<open>
  Modelled from the spec: validation of a reply "against the schema and the cover/closing-
  section invariant" (section 4.3).
\<close>

definition validate :: "raw_section list \<Rightarrow> Section list option" where
  "validate rs =
     (case validate_schema rs of
        None \<Rightarrow> None
      | Some ss \<Rightarrow> if satisfies_invariant ss then Some ss else None)"

text \<open>
  Modelled from the spec: one request with its bounded retry (sections 4.3 and 7,
  \<^verbatim>\<open>EnrichmentUnavailable\<close> "after a bounded retry"): \<open>n\<close> attempts are left, \<open>k\<close> is the
  number of the next one.
\<close>

fun request_backend ::
  "(nat \<Rightarrow> backend_reply) \<Rightarrow> nat \<Rightarrow> nat \<Rightarrow> error_kind + raw_section list" where
  "request_backend call 0 k = Inl EnrichmentUnavailable"
| "request_backend call (Suc n) k =
     (case call k of
        Reply rs \<Rightarrow> Inr rs
      | Unreachable \<Rightarrow> request_backend call n (Suc k))"

text \<open>
  Modelled from the spec: \<^verbatim>\<open>enrich(SiteContent, companyName)\<close> of section 4.3: one
  request, validation, "on violation, exactly one corrective retry with a stricter
  instruction before failing with EnrichmentInvalid".
\<close>

definition enrich :: "enricher_env \<Rightarrow> SiteContent \<Rightarrow> string \<Rightarrow> error_kind + Section list" where
  "enrich ne site name =
     (let prompt = serialize ne site name
      in case request_backend (backend ne prompt False) (maxAttempts ne) 0 of
           Inl e \<Rightarrow> Inl e
         | Inr rs \<Rightarrow>
             (case validate rs of
                Some bc \<Rightarrow> Inr bc
              | None \<Rightarrow>
                  (case request_backend (backend ne prompt True) (maxAttempts ne) 0 of
                     Inl e \<Rightarrow> Inl e
                   | Inr rs' \<Rightarrow>
                       (case validate rs' of
                          Some bc \<Rightarrow> Inr bc
                        | None \<Rightarrow> Inl EnrichmentInvalid))))"

subsection \<open>BrochureAssembler\<close>

text \<open>
  Modelled from the spec: what BrochureAssembler (section 4.4) leaves open: the rendered
  height of a block, the height of a page, and which content nodes can be rendered.
\<close>

record assembler_env =
  block_height :: "string \<Rightarrow> nat"
  page_capacity :: nat
  renderable :: "string \<Rightarrow> bool"

text \<open>
  Modelled from the spec: the content of a section (section 3): the blocks to lay out
  are its paragraphs and then its bullets; its content nodes are the heading and these.
\<close>

definition content_items :: "Section \<Rightarrow> string list" where
  "content_items s = paragraphs s @ (case bullets s of None \<Rightarrow> [] | Some bs \<Rightarrow> bs)"

definition content_nodes :: "Section \<Rightarrow> string list" where
  "content_nodes s = heading s # content_items s"

text \<open>
  Modelled from the spec: pagination (section 4.4): a section spans more pages "if its
  rendered height exceeds one page", blocks are never split and never dropped. \<open>cur\<close>
  is the page being filled (last block first) and \<open>used\<close> its height so far.
\<close>

fun paginate ::
  "nat \<Rightarrow> (string \<Rightarrow> nat) \<Rightarrow> string list \<Rightarrow> nat \<Rightarrow> string list \<Rightarrow> string list list" where
  "paginate cap h cur used [] = [rev cur]"
| "paginate cap h cur used (b # bs) =
     (if cur \<noteq> [] \<and> cap < used + h b then rev cur # paginate cap h [b] (h b) bs
      else paginate cap h (b # cur) (used + h b) bs)"

text \<open>
  Modelled from the spec: the template of a section (section 4.4, "first section always
  uses the cover template regardless of declared type"); otherwise the template is the
  one keyed by the section type.
\<close>

definition template_for :: "nat \<Rightarrow> section_type \<Rightarrow> section_type" where
  "template_for position t = (if position = 0 then Cover else t)"

text \<open>
  Modelled from the spec: the pages of one section, all on its template, and the pages
  of the content: those of its sections in order (section 4.4, "output page count is
  derived from content volume").
\<close>

definition layout_section :: "assembler_env \<Rightarrow> nat \<Rightarrow> Section \<Rightarrow> page list" where
  "layout_section ae i s =
     map (\<lambda>items. \<lparr>page_section = i, page_template = template_for i (sectionType s),
                   page_heading = heading s, page_items = items\<rparr>)
         (paginate (page_capacity ae) (block_height ae) [] 0 (content_items s))"

fun layout :: "assembler_env \<Rightarrow> nat \<Rightarrow> Section list \<Rightarrow> page list" where
  "layout ae i [] = []"
| "layout ae i (s # ss) = layout_section ae i s @ layout ae (Suc i) ss"

text \<open>
  Modelled from the spec: \<^verbatim>\<open>assemble(BrochureContent, companyName)\<close> of section 4.4,
  with the time of generation read from a clock. It fails with \<^verbatim>\<open>RenderFailure\<close> on a
  content node that cannot be rendered.
\<close>

definition assemble ::
  "assembler_env \<Rightarrow> nat \<Rightarrow> Section list \<Rightarrow> string \<Rightarrow> error_kind + BrochureDocument" where
  "assemble ae now bc name =
     (if list_all (renderable ae) (concat (map content_nodes bc))
      then (let ps = layout ae 0 bc
            in Inr \<lparr>doc_pages = ps, pageCount = length ps, generatedAt = now,
                    doc_companyName = name\<rparr>)
      else Inl RenderFailure)"

subsection \<open>GenerationPipeline\<close>

text \<open>
  Modelled from the spec: the states of section 4.5. A state before \<^verbatim>\<open>Completed\<close> holds
  the output of the stage that led to it, which is the input of the stage it names.
\<close>

datatype job_state =
    Created
  | Fetching
  | Extracting "(string \<times> string) list"
  | Enriching SiteContent
  | Assembling "Section list"
  | Completed BrochureDocument
  | Failed error_kind

text \<open>Modelled from the spec: \<^verbatim>\<open>GenerationJob\<close> of section 3.\<close>

record GenerationJob =
  job_companyName :: string
  job_companyUrl :: string
  state :: job_state
  startedAt :: nat
  completedAt :: "nat option"
  failureReason :: "error_kind option"

text \<open>
  Modelled from the spec: the configuration of a job: the four stages' environments,
  the arguments of the fetcher, the overall job budget of section 5, and the clock:
  \<open>clock pe k\<close> is the time at which the \<open>k\<close>-th transition is taken (\<open>clock pe 0\<close>:
  the job is created).
\<close>

record pipeline_env =
  fetcher :: fetcher_env
  extractor :: extractor_env
  enricher :: enricher_env
  assembler :: assembler_env
  maxPages :: nat
  perRequestTimeout :: nat
  jobBudget :: nat
  clock :: "nat \<Rightarrow> nat"

text \<open>
  Modelled from the spec: the job "created when a generation request arrives", in state
  \<^verbatim>\<open>Created\<close> (sections 3 and 4.5).
\<close>

definition new_job :: "pipeline_env \<Rightarrow> string \<Rightarrow> string \<Rightarrow> GenerationJob" where
  "new_job pe name url =
     \<lparr>job_companyName = name, job_companyUrl = url, state = Created,
      startedAt = clock pe 0, completedAt = None, failureReason = None\<rparr>"

text \<open>
  Modelled from the spec: section 4.5, "failureReason is populated only on transition to
  Failed and carries the originating stage's error kind".
\<close>

definition fail_job :: "GenerationJob \<Rightarrow> error_kind \<Rightarrow> nat \<Rightarrow> GenerationJob" where
  "fail_job j e t = j\<lparr>state := Failed e, failureReason := Some e, completedAt := Some t\<rparr>"

text \<open>Modelled from the spec: the terminal states of section 4.5.\<close>

definition terminal :: "job_state \<Rightarrow> bool" where
  "terminal s = (case s of Completed _ \<Rightarrow> True | Failed _ \<Rightarrow> True | _ \<Rightarrow> False)"

text \<open>
  Modelled from the spec: the work of the stage a state names and the state it leads to
  (section 4.5: transitions are sequential, a stage's error leads to \<^verbatim>\<open>Failed\<close>).
\<close>

definition run_stage :: "pipeline_env \<Rightarrow> nat \<Rightarrow> GenerationJob \<Rightarrow> job_state" where
  "run_stage pe t j =
     (case state j of
        Created \<Rightarrow> Fetching
      | Fetching \<Rightarrow>
          (case SiteFetcher_fetch (fetcher pe) (job_companyUrl j) (maxPages pe)
                  (perRequestTimeout pe) of
             Inl e \<Rightarrow> Failed e
           | Inr fetched \<Rightarrow> Extracting fetched)
      | Extracting fetched \<Rightarrow>
          (case ContentExtractor_extract (extractor pe) fetched of
             Inl e \<Rightarrow> Failed e
           | Inr site \<Rightarrow> Enriching site)
      | Enriching site \<Rightarrow>
          (case enrich (enricher pe) site (job_companyName j) of
             Inl e \<Rightarrow> Failed e
           | Inr bc \<Rightarrow> Assembling bc)
      | Assembling bc \<Rightarrow>
          (case assemble (assembler pe) t bc (job_companyName j) of
             Inl e \<Rightarrow> Failed e
           | Inr d \<Rightarrow> Completed d)
      | Completed d \<Rightarrow> Completed d
      | Failed e \<Rightarrow> Failed e)"

text \<open>
  Modelled from the spec: the \<open>k\<close>-th transition. A job over its budget at the stage
  boundary fails with \<^verbatim>\<open>Timeout\<close> (section 5, and section 9: the cancellation signal
  is "checked at each stage boundary"); a terminal state is not left.
\<close>

definition advance :: "pipeline_env \<Rightarrow> nat \<Rightarrow> GenerationJob \<Rightarrow> GenerationJob" where
  "advance pe k j =
     (let t = clock pe k
      in if terminal (state j) then j
         else if jobBudget pe < t - startedAt j then fail_job j Timeout t
         else (case run_stage pe t j of
                 Failed e \<Rightarrow> fail_job j e t
               | Completed d \<Rightarrow> j\<lparr>state := Completed d, completedAt := Some t\<rparr>
               | s \<Rightarrow> j\<lparr>state := s\<rparr>))"

text \<open>
  Modelled from the spec: the entry point, "generate brochure for (name, url)": a job is
  created and taken through the five transitions from \<^verbatim>\<open>Created\<close> to \<^verbatim>\<open>Completed\<close>.
\<close>

definition generate :: "pipeline_env \<Rightarrow> string \<Rightarrow> string \<Rightarrow> GenerationJob" where
  "generate pe name url = foldl (\<lambda>j k. advance pe k j) (new_job pe name url) [1, 2, 3, 4, 5]"

text \<open>
  Modelled from the spec: what the caller receives (section 6): the document, or the
  error kind; nothing while the job is not in a terminal state.
\<close>

definition delivered :: "GenerationJob \<Rightarrow> (error_kind + BrochureDocument) option" where
  "delivered j =
     (case state j of
        Completed d \<Rightarrow> Some (Inr d)
      | Failed e \<Rightarrow> Some (Inl e)
      | _ \<Rightarrow> None)"

subsection \<open>Example inputs of the pipeline\<close>

text \<open>
  A site of one home page with 50 internal links, two of them to an about and a contact
  page; its sub-pages are up or down. An extractor, two language-model backends (one
  that answers out of order and then in order, one that is unreachable), an assembler,
  and a job configuration over them.
\<close>

definition acme_links :: "link list" where
  "acme_links =
     map (\<lambda>i. \<lparr>anchorText = (if i = 7 then ''About us'' else if i = 30 then ''Contact'' else ''Post''),
               target = ''https://acme.test/'' @ replicate (Suc i) (CHR ''p'')\<rparr>) [0..<50]"

definition acme_web :: "bool \<Rightarrow> fetcher_env" where
  "acme_web up =
     \<lparr>normalize_url = (\<lambda>u. if take 8 u = ''https://'' then u else ''https://'' @ u),
      http_get = (\<lambda>u. if u = ''https://acme.test'' then \<lparr>status = 200, latency = 3, rawHtml = ''home''\<rparr>
                        else if up then \<lparr>status = 200, latency = 4, rawHtml = ''sub''\<rparr>
                        else \<lparr>status = 404, latency = 4, rawHtml = []\<rparr>),
      candidate_links = (\<lambda>h. if h = ''home'' then acme_links else []),
      same_domain = (\<lambda>r u. take (length r) u = r),
      suggested = (\<lambda>l. if anchorText l = ''About us'' then About
                         else if anchorText l = ''Contact'' then Contact else Other)\<rparr>"

definition acme_extractor :: extractor_env where
  "acme_extractor =
     \<lparr>text_blocks_of = (\<lambda>h. if h = ''home'' then [''Acme builds reliable rockets.'', ''Menu'']
                             else [''Founded in 1999.'', ''Menu'']),
      title_of = (\<lambda>h. h),
      links_of = (\<lambda>h. []),
      minBlockLength = 10,
      normalize_ws = (\<lambda>s. s),
      categorize = (\<lambda>u t. if t = ''home'' then Home else About),
      category_priority = (\<lambda>c. case c of Home \<Rightarrow> 0 | About \<Rightarrow> 1 | Product \<Rightarrow> 2 | Contact \<Rightarrow> 3 | Other \<Rightarrow> 4)\<rparr>"

definition acme_site :: SiteContent where
  "acme_site =
     \<lparr>rootUrl = ''https://acme.test'',
      sitePages = [\<lparr>page_url = ''https://acme.test'', page_title = ''home'',
                    page_category = Home,
                    textBlocks = [''Acme builds reliable rockets.''],
                    internalLinks = []\<rparr>]\<rparr>"

definition shuffled_reply :: "raw_section list" where
  "shuffled_reply =
     [\<lparr>raw_type = ''about'', raw_heading = ''Who we are'', raw_paragraphs = [''Acme builds rockets.''], raw_bullets = None\<rparr>,
      \<lparr>raw_type = ''cover'', raw_heading = ''Acme'', raw_paragraphs = [], raw_bullets = None\<rparr>,
      \<lparr>raw_type = ''contact'', raw_heading = ''Talk to us'', raw_paragraphs = [''hello@acme.test''], raw_bullets = None\<rparr>]"

definition ordered_reply :: "raw_section list" where
  "ordered_reply =
     [\<lparr>raw_type = ''cover'', raw_heading = ''Acme'', raw_paragraphs = [], raw_bullets = None\<rparr>,
      \<lparr>raw_type = ''about'', raw_heading = ''Who we are'', raw_paragraphs = [''Acme builds rockets.''], raw_bullets = None\<rparr>,
      \<lparr>raw_type = ''contact'', raw_heading = ''Talk to us'', raw_paragraphs = [''hello@acme.test''], raw_bullets = None\<rparr>]"

definition ordered_content :: "Section list" where
  "ordered_content =
     [\<lparr>sectionType = Cover, heading = ''Acme'', paragraphs = [], bullets = None\<rparr>,
      \<lparr>sectionType = AboutSection, heading = ''Who we are'', paragraphs = [''Acme builds rockets.''], bullets = None\<rparr>,
      \<lparr>sectionType = ContactSection, heading = ''Talk to us'', paragraphs = [''hello@acme.test''], bullets = None\<rparr>]"

definition corrected_backend :: enricher_env where
  "corrected_backend =
     \<lparr>serialize = (\<lambda>site name. name),
      backend = (\<lambda>prompt strict k. if strict then Reply ordered_reply else Reply shuffled_reply),
      maxAttempts = 2\<rparr>"

definition backend_outage :: enricher_env where
  "backend_outage =
     \<lparr>serialize = (\<lambda>site name. name),
      backend = (\<lambda>prompt strict k. Unreachable),
      maxAttempts = 2\<rparr>"

definition acme_assembler :: assembler_env where
  "acme_assembler = \<lparr>block_height = length, page_capacity = 40, renderable = (\<lambda>s. True)\<rparr>"

definition acme_pipeline :: "enricher_env \<Rightarrow> pipeline_env" where
  "acme_pipeline ne =
     \<lparr>fetcher = acme_web True, extractor = acme_extractor, enricher = ne,
      assembler = acme_assembler, maxPages = 2, perRequestTimeout = 10, jobBudget = 100,
      clock = (\<lambda>k. 10 * k)\<rparr>"

section \<open>Properties of the presentation layer\<close>

lemma seq_emit: "seq (emit e) n w = n (w\<lparr>log := log w @ [e]\<rparr>)"
  by (simp add: seq_def bind_def emit_def)

lemma seq_host:
  "seq (host en e) n w =
     (case throws en e of Some x \<Rightarrow> (Thrown x, w) | None \<Rightarrow> n (w\<lparr>log := log w @ [e]\<rparr>))"
  by (simp add: seq_def bind_def host_def split: option.splits)

lemma seq_setLoading: "seq (setLoading v) n w = n (w\<lparr>ui := (ui w)\<lparr>loading := v\<rparr>\<rparr>)"
  by (simp add: seq_def bind_def setLoading_def)

lemma seq_setSuccess: "seq (setSuccess v) n w = n (w\<lparr>ui := (ui w)\<lparr>success := v\<rparr>\<rparr>)"
  by (simp add: seq_def bind_def setSuccess_def)

lemma downloads_append [simp]: "downloads (xs @ ys) = downloads xs @ downloads ys"
  by (simp add: downloads_def)

lemma requests_append [simp]: "requests (xs @ ys) = requests xs @ requests ys"
  by (simp add: requests_def)

lemma downloads_Nil [simp]: "downloads [] = []"
  by (simp add: downloads_def)

lemma requests_Nil [simp]: "requests [] = []"
  by (simp add: requests_def)

lemma downloads_Cons [simp]: "downloads (e # l) = clicked e @ downloads l"
  by (simp add: downloads_def)

lemma requests_Cons [simp]: "requests (e # l) = requested e @ requests l"
  by (simp add: requests_def)

text \<open>A prefix of a run of calls holds no download and no request the whole run does not.\<close>

lemma downloads_logged: "set (downloads (logged en es)) \<subseteq> set (downloads es)"
  unfolding logged_def by (induction es) auto

lemma requests_logged: "set (requests (logged en es)) \<subseteq> set (requests es)"
  unfolding logged_def by (induction es) auto

text \<open>The catch block logs a prefix of its calls, leaves the cells alone and is never suspended.\<close>

lemma catch_block_world:
  "snd (catch_block en err w) = w\<lparr>log := log w @ logged en (catch_calls err)\<rparr>"
  by (simp add: catch_block_def catch_calls_def logged_def seq_host host_def split: option.splits)

lemma catch_block_not_Waiting: "fst (catch_block en err w) \<noteq> Waiting"
  by (simp add: catch_block_def seq_host host_def split: option.splits)

text \<open>The calls of the download for a blob that was received.\<close>

lemma download_blob_world:
  "blob_result resp = Fulfilled b \<Longrightarrow>
   snd (download_blob en cn resp w) = w\<lparr>log := log w @ logged en (download_calls en cn b)\<rparr>"
  by (simp add: download_blob_def download_calls_def logged_def bind_def await_def Let_def
      seq_host host_def split: option.splits)

lemma download_blob_outcome:
  "blob_result resp = Fulfilled b \<Longrightarrow>
   fst (download_blob en cn resp w) \<noteq> Waiting \<and>
   (fst (download_blob en cn resp w) = Done () \<longrightarrow>
      logged en (download_calls en cn b) = download_calls en cn b)"
  by (simp add: download_blob_def download_calls_def logged_def bind_def await_def Let_def
      seq_host host_def split: option.splits)

text \<open>The body of the \<^verbatim>\<open>try\<close> block, by how the fetch and the blob settle.\<close>

lemma try_body_Pending:
  "fetch_result en = Pending \<Longrightarrow>
   try_body en cn cu w = (Waiting, w\<lparr>log := log w @ [Fetch (generate_request cn cu)]\<rparr>)"
  by (simp add: try_body_def fetch_def seq_emit bind_def await_def)

lemma try_body_Rejected:
  "fetch_result en = Rejected e \<Longrightarrow>
   try_body en cn cu w = (Thrown e, w\<lparr>log := log w @ [Fetch (generate_request cn cu)]\<rparr>)"
  by (simp add: try_body_def fetch_def seq_emit bind_def await_def)

lemma try_body_not_ok:
  "fetch_result en = Fulfilled resp \<Longrightarrow> \<not> ok resp \<Longrightarrow>
   try_body en cn cu w =
     (Thrown (Error ''Failed to generate brochure''),
      w\<lparr>log := log w @ [Fetch (generate_request cn cu)]\<rparr>)"
  by (simp add: try_body_def fetch_def seq_emit bind_def await_def throw_def)

lemma try_body_ok:
  "fetch_result en = Fulfilled resp \<Longrightarrow> ok resp \<Longrightarrow>
   try_body en cn cu w =
     seq (download_blob en cn resp) (setSuccess True)
       (w\<lparr>log := log w @ [Fetch (generate_request cn cu)]\<rparr>)"
  by (simp add: try_body_def fetch_def seq_emit bind_def await_def)

lemma try_body_blob_Pending:
  "fetch_result en = Fulfilled resp \<Longrightarrow> ok resp \<Longrightarrow> blob_result resp = Pending \<Longrightarrow>
   try_body en cn cu w = (Waiting, w\<lparr>log := log w @ [Fetch (generate_request cn cu)]\<rparr>)"
  by (simp add: try_body_ok download_blob_def seq_def bind_def await_def)

lemma try_body_blob_Rejected:
  "fetch_result en = Fulfilled resp \<Longrightarrow> ok resp \<Longrightarrow> blob_result resp = Rejected e \<Longrightarrow>
   try_body en cn cu w = (Thrown e, w\<lparr>log := log w @ [Fetch (generate_request cn cu)]\<rparr>)"
  by (simp add: try_body_ok download_blob_def seq_def bind_def await_def)

lemma try_body_blob:
  assumes "fetch_result en = Fulfilled resp" "ok resp" "blob_result resp = Fulfilled b"
  shows "(try_body en cn cu w =
            (Done (), w\<lparr>log := log w @ Fetch (generate_request cn cu) # download_calls en cn b,
                        ui := (ui w)\<lparr>success := True\<rparr>\<rparr>) \<and>
          logged en (download_calls en cn b) = download_calls en cn b) \<or>
         (\<exists>e. try_body en cn cu w =
            (Thrown e, w\<lparr>log := log w @ Fetch (generate_request cn cu) #
                                  logged en (download_calls en cn b)\<rparr>))"
proof -
  let ?w1 = "w\<lparr>log := log w @ [Fetch (generate_request cn cu)]\<rparr>"
  obtain r w2 where d: "download_blob en cn resp ?w1 = (r, w2)"
    by (cases "download_blob en cn resp ?w1")
  have w2: "w2 = ?w1\<lparr>log := log ?w1 @ logged en (download_calls en cn b)\<rparr>"
    using download_blob_world [OF assms(3), of en cn ?w1] d by simp
  have r: "r \<noteq> Waiting" "r = Done () \<longrightarrow> logged en (download_calls en cn b) = download_calls en cn b"
    using download_blob_outcome [OF assms(3), of en cn ?w1] d by simp_all
  show ?thesis
  proof (cases r)
    case (Done u)
    then show ?thesis
      using d w2 r by (simp add: try_body_ok [OF assms(1,2)] seq_def bind_def setSuccess_def)
  next
    case (Thrown e)
    then show ?thesis
      using d w2 by (simp add: try_body_ok [OF assms(1,2)] seq_def bind_def)
  next
    case Waiting
    then show ?thesis using r by simp
  qed
qed

text \<open>The \<^verbatim>\<open>try\<close> statement with the handler's catch and finally blocks.\<close>

lemma tcf_Waiting:
  "body w = (Waiting, w1) \<Longrightarrow> try_catch_finally body h fin w = (Waiting, w1)"
  by (simp add: try_catch_finally_def)

lemma tcf_Done:
  "body w = (Done x, w1) \<Longrightarrow>
   try_catch_finally body h (setLoading False) w = (Done x, w1\<lparr>ui := (ui w1)\<lparr>loading := False\<rparr>\<rparr>)"
  by (simp add: try_catch_finally_def run_finally_def setLoading_def)

lemma tcf_Thrown:
  assumes "body w = (Thrown e, w1)"
  shows "\<exists>r. r \<noteq> Waiting \<and>
           try_catch_finally body (catch_block en) (setLoading False) w =
             (r, w1\<lparr>log := log w1 @ logged en (catch_calls e),
                    ui := (ui w1)\<lparr>loading := False\<rparr>\<rparr>)"
proof -
  obtain r w2 where c: "catch_block en e w1 = (r, w2)"
    by (cases "catch_block en e w1")
  have "w2 = w1\<lparr>log := log w1 @ logged en (catch_calls e)\<rparr>" "r \<noteq> Waiting"
    using catch_block_world [of en e w1] catch_block_not_Waiting [of en e w1] c by simp_all
  then show ?thesis
    using assms c
    by (cases r) (simp_all add: try_catch_finally_def run_finally_def setLoading_def)
qed

text \<open>The handler is the \<^verbatim>\<open>try\<close> statement run after its first three calls.\<close>

lemma handleSubmit_unfold:
  "handleSubmit en w =
     try_catch_finally (try_body en (companyName (ui w)) (companyUrl (ui w)))
       (catch_block en) (setLoading False) (started w)"
  by (simp add: handleSubmit_def started_def Let_def seq_emit seq_setLoading seq_setSuccess)

text \<open>Every run is one of three: suspended, failed into the catch block, or completed.\<close>

lemma handleSubmit_cases [case_names Suspended Failed Succeeded]:
  fixes en w
  defines "cn \<equiv> companyName (ui w)"
  defines "rq \<equiv> generate_request (companyName (ui w)) (companyUrl (ui w))"
  obtains
    (Suspended) "suspended en"
      "handleSubmit en w =
         (Waiting, w\<lparr>log := log w @ [PreventDefault, Fetch rq],
                     ui := (ui w)\<lparr>loading := True, success := False\<rparr>\<rparr>)"
  | (Failed) r e es where "\<not> suspended en" "r \<noteq> Waiting"
      "handleSubmit en w =
         (r, w\<lparr>log := log w @ [PreventDefault, Fetch rq] @ es @ logged en (catch_calls e),
               ui := (ui w)\<lparr>loading := False, success := False\<rparr>\<rparr>)"
      "es = [] \<or> (\<exists>resp b. fetch_result en = Fulfilled resp \<and> ok resp \<and>
                     blob_result resp = Fulfilled b \<and> es = logged en (download_calls en cn b))"
      "(\<exists>resp. fetch_result en = Fulfilled resp \<and> \<not> ok resp) \<longrightarrow>
         es = [] \<and> e = Error ''Failed to generate brochure''"
  | (Succeeded) resp b where "\<not> suspended en"
      "fetch_result en = Fulfilled resp" "ok resp" "blob_result resp = Fulfilled b"
      "logged en (download_calls en cn b) = download_calls en cn b"
      "handleSubmit en w =
         (Done (), w\<lparr>log := log w @ [PreventDefault, Fetch rq] @ download_calls en cn b,
                     ui := (ui w)\<lparr>loading := False, success := True\<rparr>\<rparr>)"
proof -
  let ?body = "try_body en (companyName (ui w)) (companyUrl (ui w))"
  have thrown: thesis
    if t: "?body (started w) = (Thrown e, (started w)\<lparr>log := log (started w) @ Fetch rq # es\<rparr>)"
      and ns: "\<not> suspended en"
      and es: "es = [] \<or> (\<exists>resp b. fetch_result en = Fulfilled resp \<and> ok resp \<and>
                     blob_result resp = Fulfilled b \<and> es = logged en (download_calls en cn b))"
      and nk: "(\<exists>resp. fetch_result en = Fulfilled resp \<and> \<not> ok resp) \<longrightarrow>
         es = [] \<and> e = Error ''Failed to generate brochure''"
    for e es
  proof -
    obtain r where "r \<noteq> Waiting"
      "handleSubmit en w =
         (r, w\<lparr>log := log w @ [PreventDefault, Fetch rq] @ es @ logged en (catch_calls e),
               ui := (ui w)\<lparr>loading := False, success := False\<rparr>\<rparr>)"
      using tcf_Thrown [where body = ?body and w = "started w" and en = en, OF t] by (auto simp: handleSubmit_unfold started_def)
    then show thesis using Failed ns es nk by blast
  qed
  show thesis
  proof (cases "fetch_result en")
    case Pending
    then have "suspended en" by (simp add: suspended_def)
    moreover have "handleSubmit en w =
         (Waiting, w\<lparr>log := log w @ [PreventDefault, Fetch rq],
                     ui := (ui w)\<lparr>loading := True, success := False\<rparr>\<rparr>)"
      using tcf_Waiting [where body = ?body and w = "started w", OF try_body_Pending [OF Pending]]
      by (simp add: handleSubmit_unfold started_def rq_def)
    ultimately show thesis by (rule Suspended)
  next
    case (Rejected e)
    then have "\<not> suspended en" by (simp add: suspended_def)
    then show thesis
      using thrown [of e "[]"] try_body_Rejected [OF Rejected, of _ _ "started w"] Rejected
      by (simp add: rq_def)
  next
    case (Fulfilled resp)
    show thesis
    proof (cases "ok resp")
      case False
      then have "\<not> suspended en" using Fulfilled by (simp add: suspended_def)
      then show thesis
        using thrown [of "Error ''Failed to generate brochure''" "[]"]
          try_body_not_ok [OF Fulfilled False, of _ _ "started w"]
        by (simp add: rq_def)
    next
      case True
      show thesis
      proof (cases "blob_result resp")
        case Pending
        then have "suspended en" using Fulfilled True by (simp add: suspended_def)
        moreover have "handleSubmit en w =
           (Waiting, w\<lparr>log := log w @ [PreventDefault, Fetch rq],
                       ui := (ui w)\<lparr>loading := True, success := False\<rparr>\<rparr>)"
          using tcf_Waiting [where body = ?body and w = "started w", OF try_body_blob_Pending [OF Fulfilled True Pending]]
          by (simp add: handleSubmit_unfold started_def rq_def)
        ultimately show thesis by (rule Suspended)
      next
        case (Rejected e)
        then have "\<not> suspended en" using Fulfilled True by (simp add: suspended_def)
        then show thesis
          using thrown [of e "[]"]
            try_body_blob_Rejected [OF Fulfilled True Rejected, of _ _ "started w"] Fulfilled True
          by (simp add: rq_def)
      next
        case b: (Fulfilled b)
        then have ns: "\<not> suspended en" using Fulfilled True by (simp add: suspended_def)
        from try_body_blob [OF Fulfilled True b, of cn "companyUrl (ui w)" "started w"]
        show thesis
        proof (elim disjE conjE exE)
          assume d: "try_body en cn (companyUrl (ui w)) (started w) =
              (Done (), (started w)\<lparr>log := log (started w) @
                   Fetch (generate_request cn (companyUrl (ui w))) # download_calls en cn b,
                 ui := (ui (started w))\<lparr>success := True\<rparr>\<rparr>)"
            and l: "logged en (download_calls en cn b) = download_calls en cn b"
          have "handleSubmit en w =
             (Done (), w\<lparr>log := log w @ [PreventDefault, Fetch rq] @ download_calls en cn b,
                         ui := (ui w)\<lparr>loading := False, success := True\<rparr>\<rparr>)"
            using tcf_Done [where body = ?body and w = "started w", OF d [unfolded cn_def]]
            by (simp add: handleSubmit_unfold started_def rq_def cn_def)
          then show thesis using Succeeded ns Fulfilled True b l by blast
        next
          fix e
          assume "try_body en cn (companyUrl (ui w)) (started w) =
              (Thrown e, (started w)\<lparr>log := log (started w) @
                   Fetch (generate_request cn (companyUrl (ui w))) #
                   logged en (download_calls en cn b)\<rparr>)"
          then show thesis
            using thrown [of e "logged en (download_calls en cn b)"] ns Fulfilled True b
            by (simp add: rq_def cn_def)
        qed
      qed
    qed
  qed
qed

lemma requests_logged_catch [simp]: "requests (logged en (catch_calls e)) = []"
  using requests_logged [of en "catch_calls e"] by (simp add: catch_calls_def)

lemma downloads_logged_catch [simp]: "downloads (logged en (catch_calls e)) = []"
  using downloads_logged [of en "catch_calls e"] by (simp add: catch_calls_def)

lemma requests_download_calls [simp]: "requests (download_calls en cn b) = []"
  by (simp add: download_calls_def Let_def)

lemma requests_logged_download [simp]: "requests (logged en (download_calls en cn b)) = []"
  using requests_logged [of en "download_calls en cn b"] by simp

lemma downloads_download_calls [simp]:
  "downloads (download_calls en cn b) =
     [\<lparr>href = object_url en b, download = cn @ ''_brochure.pdf''\<rparr>]"
  by (simp add: download_calls_def Let_def)

lemma downloads_logged_download:
  "a \<in> set (downloads (logged en (download_calls en cn b))) \<Longrightarrow>
   download a = cn @ ''_brochure.pdf''"
  using downloads_logged [of en "download_calls en cn b"] by auto

text \<open>The run for a response that is not ok.\<close>

lemma not_ok_run:
  assumes "fetch_result en = Fulfilled resp" and "\<not> ok resp"
  shows "\<exists>r. r \<noteq> Waiting \<and>
    handleSubmit en w =
      (r, w\<lparr>log := log w @ [PreventDefault,
                 Fetch (generate_request (companyName (ui w)) (companyUrl (ui w)))] @
                 logged en (catch_calls (Error ''Failed to generate brochure'')),
            ui := (ui w)\<lparr>loading := False, success := False\<rparr>\<rparr>)"
proof -
  obtain r where "r \<noteq> Waiting"
    "handleSubmit en w =
       (r, (started w)\<lparr>log := log (started w) @
               [Fetch (generate_request (companyName (ui w)) (companyUrl (ui w)))]\<rparr>
           \<lparr>log := log ((started w)\<lparr>log := log (started w) @
               [Fetch (generate_request (companyName (ui w)) (companyUrl (ui w)))]\<rparr>) @
                 logged en (catch_calls (Error ''Failed to generate brochure'')),
             ui := (ui ((started w)\<lparr>log := log (started w) @
               [Fetch (generate_request (companyName (ui w)) (companyUrl (ui w)))]\<rparr>))
                 \<lparr>loading := False\<rparr>\<rparr>)"
    using tcf_Thrown [where body = "try_body en (companyName (ui w)) (companyUrl (ui w))"
      and w = "started w" and en = en, OF try_body_not_ok [OF assms]]
    unfolding handleSubmit_unfold by blast
  then show ?thesis by (simp add: started_def)
qed

text \<open>Evaluating the example runs.\<close>

lemmas prog_defs =
  seq_def bind_def throw_def await_def emit_def host_def run_finally_def
  try_catch_finally_def setLoading_def setSuccess_def setCompanyName_def setCompanyUrl_def

lemma run_backend_500:
  "handleSubmit backend_500 acme_form =
     (Done (),
      \<lparr>ui = \<lparr>companyName = ''Acme'', companyUrl = ''https://acme.test'',
              loading = False, success = False, mounted = True\<rparr>,
       log = [PreventDefault,
              Fetch (generate_request ''Acme'' ''https://acme.test''),
              ConsoleError (Error ''Failed to generate brochure''),
              Alert ''Error generating brochure. Check backend logs.'']\<rparr>)"
  by (simp add: handleSubmit_def try_body_def catch_block_def fetch_def backend_500_def
      acme_form_def prog_defs)

lemma run_backend_ok:
  "handleSubmit backend_ok acme_form =
     (Done (),
      \<lparr>ui = \<lparr>companyName = ''Acme'', companyUrl = ''https://acme.test'',
              loading = False, success = True, mounted = True\<rparr>,
       log = [PreventDefault,
              Fetch (generate_request ''Acme'' ''https://acme.test''),
              CreateObjectURL ''%PDF-1.4'', CreateElement ''a'',
              AppendChild \<lparr>href = ''blob:acme'', download = ''Acme_brochure.pdf''\<rparr>,
              Click \<lparr>href = ''blob:acme'', download = ''Acme_brochure.pdf''\<rparr>,
              Remove \<lparr>href = ''blob:acme'', download = ''Acme_brochure.pdf''\<rparr>,
              RevokeObjectURL ''blob:acme'']\<rparr>)"
  by (simp add: handleSubmit_def try_body_def catch_block_def download_blob_def fetch_def
      backend_ok_def acme_form_def prog_defs Let_def)

text \<open>
  C8. Once the request has settled, the run of \<^verbatim>\<open>handleSubmit\<close> ends (it returns or
  throws), and after every run that ends the loading flag is false. A run stays
  suspended exactly when the fetch, or the reading of the blob of an ok response,
  never settles.
\<close>

theorem handleSubmit_clears_loading:
  "(fst (handleSubmit en w) = Waiting) = suspended en \<and>
   (fst (handleSubmit en w) \<noteq> Waiting \<longrightarrow> loading (ui (snd (handleSubmit en w))) = False)"
  by (cases en w rule: handleSubmit_cases) auto

theorem handleSubmit_clears_loading_witness:
  "fst (handleSubmit backend_500 acme_form) \<noteq> Waiting \<and>
   loading (ui (snd (handleSubmit backend_500 acme_form))) = False"
  using handleSubmit_clears_loading [of backend_500 acme_form]
  by (simp add: suspended_def backend_500_def)

text \<open>
  C2. When the response is not ok, the run ends with success false and no download:
  all it adds to the log is \<^verbatim>\<open>preventDefault\<close>, the request, and the calls of the catch
  block (the error is logged and the alert shown).
\<close>

theorem handleSubmit_not_ok:
  assumes "fetch_result en = Fulfilled resp" and "\<not> ok resp"
  shows "success (ui (snd (handleSubmit en w))) = False \<and>
         downloads (log (snd (handleSubmit en w))) = downloads (log w) \<and>
         fst (handleSubmit en w) \<noteq> Waiting \<and>
         log (snd (handleSubmit en w)) =
           log w @ [PreventDefault,
                    Fetch (generate_request (companyName (ui w)) (companyUrl (ui w)))] @
             logged en (catch_calls (Error ''Failed to generate brochure''))"
proof -
  obtain r where "r \<noteq> Waiting"
    "handleSubmit en w =
      (r, w\<lparr>log := log w @ [PreventDefault,
                 Fetch (generate_request (companyName (ui w)) (companyUrl (ui w)))] @
                 logged en (catch_calls (Error ''Failed to generate brochure'')),
            ui := (ui w)\<lparr>loading := False, success := False\<rparr>\<rparr>)"
    using not_ok_run [OF assms] by blast
  then show ?thesis by simp
qed

theorem handleSubmit_not_ok_witness:
  "fetch_result backend_500 = Fulfilled \<lparr>ok = False, blob_result = Fulfilled ''Internal Server Error''\<rparr> \<and>
   success (ui acme_form) \<and>
   success (ui (snd (handleSubmit backend_500 acme_form))) = False \<and>
   downloads (log (snd (handleSubmit backend_500 acme_form))) = [] \<and>
   log (snd (handleSubmit backend_500 acme_form)) =
     [PreventDefault, Fetch (generate_request ''Acme'' ''https://acme.test''),
      ConsoleError (Error ''Failed to generate brochure''),
      Alert ''Error generating brochure. Check backend logs.'']"
  using handleSubmit_not_ok [of backend_500
      "\<lparr>ok = False, blob_result = Fulfilled ''Internal Server Error''\<rparr>" acme_form]
  by (simp add: backend_500_def acme_form_def logged_def catch_calls_def)

text \<open>
  C3. Every run of \<^verbatim>\<open>handleSubmit\<close> sends exactly one request: a POST to
  \<^verbatim>\<open>/generate-brochure\<close> whose body is the JSON text of an object with the two fields
  \<^verbatim>\<open>companyName\<close> and \<^verbatim>\<open>companyUrl\<close>, holding the strings of the form.
\<close>

theorem handleSubmit_request:
  "requests (log (snd (handleSubmit en w))) =
     requests (log w) @
       [\<lparr>req_url = ''/generate-brochure'',
         req_method = ''POST'',
         req_headers = [(''Content-Type'', ''application/json'')],
         req_body = JSON_stringify
           (JObject [(''companyName'', JString (companyName (ui w))),
                     (''companyUrl'', JString (companyUrl (ui w)))])\<rparr>]"
proof (cases en w rule: handleSubmit_cases)
  case Suspended
  then show ?thesis by (simp add: generate_request_def)
next
  case (Failed r e es)
  then have "requests es = []" by auto
  then show ?thesis using Failed by (simp add: generate_request_def)
next
  case (Succeeded resp b)
  then show ?thesis by (simp add: generate_request_def)
qed

theorem handleSubmit_request_witness:
  "requests (log (snd (handleSubmit backend_ok acme_form))) =
     [\<lparr>req_url = ''/generate-brochure'',
       req_method = ''POST'',
       req_headers = [(''Content-Type'', ''application/json'')],
       req_body = JSON_stringify
         (JObject [(''companyName'', JString ''Acme''),
                   (''companyUrl'', JString ''https://acme.test'')])\<rparr>]"
  using handleSubmit_request [of backend_ok acme_form] by (simp add: acme_form_def)

text \<open>
  C4. Every download a run of \<^verbatim>\<open>handleSubmit\<close> starts is named by the company name of
  the form followed by \<^verbatim>\<open>_brochure.pdf\<close>, and a run that ends with success true has
  started exactly one download, of the blob of the response.
\<close>

theorem handleSubmit_download_name:
  "\<exists>ds. downloads (log (snd (handleSubmit en w))) = downloads (log w) @ ds \<and>
        (\<forall>a \<in> set ds. download a = companyName (ui w) @ ''_brochure.pdf'') \<and>
        (success (ui (snd (handleSubmit en w))) \<longrightarrow>
           (\<exists>resp b. fetch_result en = Fulfilled resp \<and> ok resp \<and>
              blob_result resp = Fulfilled b \<and>
              ds = [\<lparr>href = object_url en b,
                     download = companyName (ui w) @ ''_brochure.pdf''\<rparr>]))"
proof (cases en w rule: handleSubmit_cases)
  case Suspended
  then show ?thesis by simp
next
  case (Failed r e es)
  from Failed(4) have "\<forall>a \<in> set (downloads es). download a = companyName (ui w) @ ''_brochure.pdf''"
    using downloads_logged_download by auto
  then show ?thesis using Failed(3) by simp
next
  case (Succeeded resp b)
  then show ?thesis by simp
qed

theorem handleSubmit_download_name_witness:
  "success (ui (snd (handleSubmit backend_ok acme_form))) \<and>
   downloads (log (snd (handleSubmit backend_ok acme_form))) =
     [\<lparr>href = ''blob:acme'', download = ''Acme_brochure.pdf''\<rparr>]"
proof -
  have s: "success (ui (snd (handleSubmit backend_ok acme_form)))"
    by (simp add: run_backend_ok)
  obtain ds where
    "downloads (log (snd (handleSubmit backend_ok acme_form))) = downloads (log acme_form) @ ds"
    "\<exists>resp b. fetch_result backend_ok = Fulfilled resp \<and> ok resp \<and>
        blob_result resp = Fulfilled b \<and>
        ds = [\<lparr>href = object_url backend_ok b,
               download = companyName (ui acme_form) @ ''_brochure.pdf''\<rparr>]"
    using handleSubmit_download_name [of backend_ok acme_form] s by blast
  then show ?thesis using s by (auto simp: backend_ok_def acme_form_def)
qed

text \<open>
  C9. The Create Another button, in FormSection and in the standalone component, sets
  success to false and the two form fields to the empty string; the loading and mounted
  flags and the log of host calls are as before.
\<close>

theorem createAnother_resets:
  "FormSection_createAnother w =
     (Done (), w\<lparr>ui := (ui w)\<lparr>success := False, companyName := [], companyUrl := []\<rparr>\<rparr>) \<and>
   BrochAI_createAnother w = FormSection_createAnother w \<and>
   loading (ui (snd (FormSection_createAnother w))) = loading (ui w) \<and>
   mounted (ui (snd (FormSection_createAnother w))) = mounted (ui w) \<and>
   log (snd (FormSection_createAnother w)) = log w"
  by (simp add: FormSection_createAnother_def BrochAI_createAnother_def seq_def bind_def
      setSuccess_def setCompanyName_def setCompanyUrl_def)

theorem createAnother_resets_witness:
  "snd (FormSection_createAnother acme_form) =
     \<lparr>ui = \<lparr>companyName = [], companyUrl = [], loading = False, success = False,
             mounted = True\<rparr>,
      log = []\<rparr>"
  using createAnother_resets [of acme_form] by (simp add: acme_form_def)

text \<open>
  C10. \<^verbatim>\<open>handleSubmit\<close> of the standalone component sends no request and starts no
  download: it arms a timer of 2000 ms, and the timer's callback sets success to true
  whatever the state. \<^verbatim>\<open>handleSubmit\<close> of App.jsx is not equivalent: there are settled
  runs that end with success false, and a run that ends with success true has sent a
  request and started a download.
\<close>

theorem BrochAI_handleSubmit_simulated:
  "BrochAI_handleSubmit w =
     (Done (), w\<lparr>log := log w @ [PreventDefault, SetTimeout BrochAI_timeout 2000],
                 ui := (ui w)\<lparr>loading := True, success := False\<rparr>\<rparr>) \<and>
   run_callback BrochAI_timeout w1 =
     (Done (), w1\<lparr>ui := (ui w1)\<lparr>loading := False, success := True\<rparr>\<rparr>) \<and>
   success (ui (BrochAI_submitted w)) \<and>
   requests (log (BrochAI_submitted w)) = requests (log w) \<and>
   downloads (log (BrochAI_submitted w)) = downloads (log w) \<and>
   (\<exists>en. \<not> suspended en \<and> \<not> success (ui (snd (handleSubmit en w)))) \<and>
   (\<forall>en. success (ui (snd (handleSubmit en w))) \<longrightarrow>
      length (requests (log (snd (handleSubmit en w)))) = Suc (length (requests (log w))) \<and>
      length (downloads (log (snd (handleSubmit en w)))) = Suc (length (downloads (log w))))"
proof -
  have 1: "BrochAI_handleSubmit w =
     (Done (), w\<lparr>log := log w @ [PreventDefault, SetTimeout BrochAI_timeout 2000],
                 ui := (ui w)\<lparr>loading := True, success := False\<rparr>\<rparr>)"
    by (simp add: BrochAI_handleSubmit_def seq_emit seq_setLoading seq_setSuccess emit_def)
  have 2: "run_callback BrochAI_timeout w1 =
     (Done (), w1\<lparr>ui := (ui w1)\<lparr>loading := False, success := True\<rparr>\<rparr>)" for w1
    by (simp add: seq_setLoading setSuccess_def)
  have "fetch_result backend_500 =
      Fulfilled \<lparr>ok = False, blob_result = Fulfilled ''Internal Server Error''\<rparr>"
    by (simp add: backend_500_def)
  then obtain r where "handleSubmit backend_500 w =
      (r, w\<lparr>log := log w @ [PreventDefault,
                 Fetch (generate_request (companyName (ui w)) (companyUrl (ui w)))] @
                 logged backend_500 (catch_calls (Error ''Failed to generate brochure'')),
            ui := (ui w)\<lparr>loading := False, success := False\<rparr>\<rparr>)"
    using not_ok_run [of backend_500 _ w] by fastforce
  then have "\<not> success (ui (snd (handleSubmit backend_500 w)))"
    by simp
  moreover have "\<not> suspended backend_500"
    by (simp add: suspended_def backend_500_def)
  ultimately have 3: "\<not> suspended backend_500 \<and> \<not> success (ui (snd (handleSubmit backend_500 w)))"
    by simp
  have 4: "length (requests (log (snd (handleSubmit en w)))) = Suc (length (requests (log w))) \<and>
      length (downloads (log (snd (handleSubmit en w)))) = Suc (length (downloads (log w)))"
    if "success (ui (snd (handleSubmit en w)))" for en
    using that by (cases en w rule: handleSubmit_cases) simp_all
  show ?thesis
    using 1 2 3 4 by (auto simp: BrochAI_submitted_def)
qed

theorem BrochAI_handleSubmit_simulated_witness:
  "success (ui (BrochAI_submitted acme_form)) \<and>
   requests (log (BrochAI_submitted acme_form)) = [] \<and>
   downloads (log (BrochAI_submitted acme_form)) = [] \<and>
   \<not> success (ui (snd (handleSubmit backend_500 acme_form))) \<and>
   success (ui (snd (handleSubmit backend_ok acme_form))) \<and>
   length (requests (log (snd (handleSubmit backend_ok acme_form)))) = 1 \<and>
   length (downloads (log (snd (handleSubmit backend_ok acme_form)))) = 1"
proof -
  note t = BrochAI_handleSubmit_simulated [of acme_form acme_form]
  have l0: "log acme_form = []"
    by (simp add: acme_form_def)
  have a: "success (ui (BrochAI_submitted acme_form))"
    "requests (log (BrochAI_submitted acme_form)) = []"
    "downloads (log (BrochAI_submitted acme_form)) = []"
    using t l0 by simp_all
  have s: "success (ui (snd (handleSubmit backend_ok acme_form)))"
    by (simp add: run_backend_ok)
  have b: "length (requests (log (snd (handleSubmit backend_ok acme_form)))) = 1"
    "length (downloads (log (snd (handleSubmit backend_ok acme_form)))) = 1"
    using t s l0 by simp_all
  have c: "\<not> success (ui (snd (handleSubmit backend_500 acme_form)))"
    by (simp add: run_backend_500)
  show ?thesis using a b c s by simp
qed

section \<open>Properties of the pipeline\<close>

subsection \<open>SiteFetcher: the selection of links\<close>

lemma filter_none: "\<forall>x \<in> set xs. \<not> P x \<Longrightarrow> filter P xs = []"
  by (induction xs) auto

lemma length_map_filter_le: "length (List.map_filter f xs) \<le> length xs"
  by (induction xs) (auto split: option.splits)

lemma length_map_filter_all:
  "\<forall>x \<in> set xs. f x \<noteq> None \<Longrightarrow> length (List.map_filter f xs) = length xs"
  by (induction xs) (auto split: option.splits)

lemma length_prioritize: "length (prioritize fe ls) = length ls"
  by (simp add: prioritize_def sum_length_filter_compl)

lemma high_value_select:
  "length (filter (high_value fe) (select_links fe n cands)) =
     min (n - 1) (length (filter (high_value fe) cands))"
proof -
  have "filter (high_value fe) (take k (filter (\<lambda>l. \<not> high_value fe l) cands)) = []" for k
    by (rule filter_none) (auto dest: in_set_takeD)
  moreover have "filter (high_value fe) (take k (filter (high_value fe) cands)) =
      take k (filter (high_value fe) cands)" for k
    by (rule filter_True) (auto dest: in_set_takeD)
  ultimately show ?thesis
    by (simp add: select_links_def prioritize_def min.commute)
qed

lemma fetch_page_url: "fetch_page fe t u = Some (u', h) \<Longrightarrow> u' = u"
  by (auto simp: fetch_page_def Let_def split: if_splits)

subsection \<open>ContentExtractor keeps a block when there is one\<close>

lemma dedup_blocks_seen: "fst (dedup_blocks nw seen bs) = [] \<Longrightarrow> snd (dedup_blocks nw seen bs) = seen"
  by (induction bs arbitrary: seen) (auto split: if_splits prod.splits)

lemma dedup_blocks_kept:
  "b \<in> set bs \<Longrightarrow> nw b \<notin> set seen \<Longrightarrow> fst (dedup_blocks nw seen bs) \<noteq> []"
  by (induction bs arbitrary: seen) (auto split: if_splits prod.splits)

lemma dedup_pages_kept:
  "p \<in> set ps \<Longrightarrow> b \<in> set (textBlocks p) \<Longrightarrow> nw b \<notin> set seen \<Longrightarrow>
   concat (map textBlocks (dedup_pages nw seen ps)) \<noteq> []"
proof (induction ps arbitrary: seen)
  case Nil
  then show ?case by simp
next
  case (Cons q ps)
  obtain kept seen' where d: "dedup_blocks nw seen (textBlocks q) = (kept, seen')"
    by (cases "dedup_blocks nw seen (textBlocks q)")
  show ?case
  proof (cases "kept = []")
    case True
    then have s: "seen' = seen" using dedup_blocks_seen [of nw seen "textBlocks q"] d by simp
    have "p \<noteq> q" using dedup_blocks_kept [of b "textBlocks q" nw seen] Cons.prems d True by auto
    then have "p \<in> set ps" using Cons.prems by simp
    then show ?thesis using Cons.IH [of seen] Cons.prems d s by simp
  next
    case False
    then show ?thesis using d by simp
  qed
qed

lemma extract_succeeds:
  assumes "(u, h) \<in> set fetched" "b \<in> set (text_blocks_of ee h)" "minBlockLength ee \<le> length b"
  shows "\<exists>site. ContentExtractor_extract ee fetched = Inr site"
proof -
  let ?ps = "sort_key (\<lambda>p. category_priority ee (page_category p)) (map (extract_page ee) fetched)"
  have "extract_page ee (u, h) \<in> set ?ps" using assms(1) by auto
  moreover have "b \<in> set (textBlocks (extract_page ee (u, h)))"
    using assms(2,3) by (simp add: extract_page_def)
  ultimately have "concat (map textBlocks (dedup_pages (normalize_ws ee) [] ?ps)) \<noteq> []"
    by (rule dedup_pages_kept) simp
  moreover obtain u0 h0 rest where "fetched = (u0, h0) # rest"
    using assms(1) by (cases fetched) auto
  ultimately show ?thesis
    by (simp add: ContentExtractor_extract_def Let_def)
qed

subsection \<open>BrochureAssembler lays out at least one page per section\<close>

lemma paginate_nonempty: "paginate cap h cur used bs \<noteq> []"
  by (induction bs arbitrary: cur used) auto

lemma paginate_content: "concat (paginate cap h cur used bs) = rev cur @ bs"
  by (induction bs arbitrary: cur used) auto

lemma layout_section_nonempty: "layout_section ae i s \<noteq> []"
  by (simp add: layout_section_def paginate_nonempty)

lemma layout_length: "length ss \<le> length (layout ae i ss)"
proof (induction ss arbitrary: i)
  case Nil
  then show ?case by simp
next
  case (Cons s ss)
  have "1 \<le> length (layout_section ae i s)"
    using layout_section_nonempty [of ae i s] by (cases "layout_section ae i s") auto
  then show ?case using Cons [of "Suc i"] by simp
qed

lemma assemble_pageCount:
  assumes "assemble ae now bc name = Inr d"
  shows "pageCount d = length (doc_pages d) \<and> length bc \<le> pageCount d"
  using assms layout_length [of bc ae 0]
  by (auto simp: assemble_def Let_def split: if_splits)

lemma assemble_succeeds:
  "list_all (renderable ae) (concat (map content_nodes bc)) \<Longrightarrow>
   \<exists>d. assemble ae now bc name = Inr d"
  by (simp add: assemble_def Let_def)

subsection \<open>The transitions of a job within its budget\<close>

lemma advance_in_budget:
  assumes "\<not> terminal (state j)" and "clock pe k - startedAt j \<le> jobBudget pe"
  shows "advance pe k j =
     (case run_stage pe (clock pe k) j of
        Failed e \<Rightarrow> fail_job j e (clock pe k)
      | Completed d \<Rightarrow> j\<lparr>state := Completed d, completedAt := Some (clock pe k)\<rparr>
      | s \<Rightarrow> j\<lparr>state := s\<rparr>)"
  using assms by (simp add: advance_def Let_def)

lemma generate_completes_aux:
  assumes fetched: "SiteFetcher_fetch (fetcher pe) url (maxPages pe) (perRequestTimeout pe) = Inr ps"
    and extracted: "ContentExtractor_extract (extractor pe) ps = Inr site"
    and enriched: "enrich (enricher pe) site name = Inr bc"
    and assembled: "assemble (assembler pe) (clock pe 5) bc name = Inr d"
    and in_time: "\<forall>k \<in> {1..5}. clock pe k - clock pe 0 \<le> jobBudget pe"
  shows "generate pe name url =
     \<lparr>job_companyName = name, job_companyUrl = url, state = Completed d,
      startedAt = clock pe 0, completedAt = Some (clock pe 5), failureReason = None\<rparr>"
proof -
  have t: "clock pe 1 - clock pe 0 \<le> jobBudget pe" "clock pe 2 - clock pe 0 \<le> jobBudget pe"
    "clock pe 3 - clock pe 0 \<le> jobBudget pe" "clock pe 4 - clock pe 0 \<le> jobBudget pe"
    "clock pe 5 - clock pe 0 \<le> jobBudget pe"
    using in_time by simp_all
  let ?j = "\<lambda>s. \<lparr>job_companyName = name, job_companyUrl = url, state = s,
      startedAt = clock pe 0, completedAt = None, failureReason = None\<rparr>"
  have 1: "advance pe (Suc 0) (new_job pe name url) = ?j Fetching"
    using t(1) by (simp add: advance_in_budget new_job_def terminal_def run_stage_def)
  have 2: "advance pe 2 (?j Fetching) = ?j (Extracting ps)"
    using t(2) fetched by (simp add: advance_in_budget terminal_def run_stage_def)
  have 3: "advance pe 3 (?j (Extracting ps)) = ?j (Enriching site)"
    using t(3) extracted by (simp add: advance_in_budget terminal_def run_stage_def)
  have 4: "advance pe 4 (?j (Enriching site)) = ?j (Assembling bc)"
    using t(4) enriched by (simp add: advance_in_budget terminal_def run_stage_def)
  have 5: "advance pe 5 (?j (Assembling bc)) = (?j (Completed d))\<lparr>completedAt := Some (clock pe 5)\<rparr>"
    using t(5) assembled by (simp add: advance_in_budget terminal_def run_stage_def)
  show ?thesis
    by (simp add: generate_def 1 2 3 4 5)
qed

subsection \<open>NarrativeEnricher returns validated content only\<close>

lemma is_body_not: "is_body t \<Longrightarrow> t \<noteq> Cover \<and> \<not> is_closing t"
  by (auto simp: is_body_def is_closing_def)

lemma is_closing_not_Cover: "is_closing t \<Longrightarrow> t \<noteq> Cover"
  by (auto simp: is_closing_def)

lemma satisfies_invariant_shape:
  assumes "satisfies_invariant ss"
  obtains c mid z where "ss = c # mid @ [z]" "sectionType c = Cover"
    "is_closing (sectionType z)" "\<forall>s \<in> set mid. is_body (sectionType s)"
proof -
  from assms obtain c rest where ss: "ss = c # rest" and c: "sectionType c = Cover"
    and rest: "rest \<noteq> []" and z: "is_closing (sectionType (last rest))"
    and mid: "list_all (\<lambda>s. is_body (sectionType s)) (butlast rest)"
    by (auto simp: satisfies_invariant_def split: list.splits)
  have "ss = c # butlast rest @ [last rest]" using ss rest by simp
  then show thesis using that c z mid by (simp add: list_all_iff)
qed

lemma invariant_counts:
  assumes "satisfies_invariant bc"
  shows "bc \<noteq> [] \<and> sectionType (hd bc) = Cover \<and>
         length (filter (\<lambda>s. sectionType s = Cover) bc) = 1 \<and>
         is_closing (sectionType (last bc)) \<and>
         length (filter (\<lambda>s. is_closing (sectionType s)) bc) = 1 \<and>
         (\<forall>s \<in> set (butlast (tl bc)). is_body (sectionType s))"
proof -
  from assms obtain c mid z where bc: "bc = c # mid @ [z]" and c: "sectionType c = Cover"
    and z: "is_closing (sectionType z)" and mid: "\<forall>s \<in> set mid. is_body (sectionType s)"
    by (rule satisfies_invariant_shape)
  have m1: "filter (\<lambda>s. sectionType s = Cover) mid = []"
    using mid is_body_not by (intro filter_none) blast
  have m2: "filter (\<lambda>s. is_closing (sectionType s)) mid = []"
    using mid is_body_not by (intro filter_none) blast
  show ?thesis
    using bc c z mid m1 m2 is_closing_not_Cover [OF z]
    by (simp add: butlast_append is_closing_def)
qed

lemma validate_invariant: "validate rs = Some bc \<Longrightarrow> satisfies_invariant bc"
  by (auto simp: validate_def split: option.splits if_splits)

lemma enrich_validated:
  assumes "enrich ne site name = Inr bc"
  shows "\<exists>rs. validate rs = Some bc"
  using assms unfolding enrich_def Let_def
  by (auto split: sum.splits option.splits)

lemma validate_shuffled: "validate shuffled_reply = None"
  by (simp add: validate_def validate_schema_def shuffled_reply_def parse_section_def
      parse_section_type_def satisfies_invariant_def)

lemma validate_ordered: "validate ordered_reply = Some ordered_content"
  by (simp add: validate_def validate_schema_def ordered_reply_def ordered_content_def
      parse_section_def parse_section_type_def satisfies_invariant_def is_closing_def is_body_def)

lemma enrich_corrected: "enrich corrected_backend acme_site ''Acme'' = Inr ordered_content"
  by (simp add: enrich_def corrected_backend_def validate_shuffled validate_ordered
      numeral_2_eq_2)

subsection \<open>The claims about the pipeline\<close>

lemma enrich_corrected_any: "enrich corrected_backend site name = Inr ordered_content"
  by (simp add: enrich_def corrected_backend_def validate_shuffled validate_ordered
      numeral_2_eq_2)

lemma acme_fetch_two:
  "SiteFetcher_fetch (acme_web True) ''acme.test'' 2 10 =
     Inr [(''https://acme.test'', ''home''), (''https://acme.test/pppppppp'', ''sub'')]"
  by code_simp

lemma acme_fetch_five:
  "SiteFetcher_fetch (acme_web True) ''acme.test'' 5 10 =
     Inr [(''https://acme.test'', ''home''), (''https://acme.test/pppppppp'', ''sub''),
          (''https://acme.test/ppppppppppppppppppppppppppppppp'', ''sub''),
          (''https://acme.test/p'', ''sub''), (''https://acme.test/pp'', ''sub'')]"
  by code_simp

lemma acme_candidates:
  "length (internal_candidates (acme_web up) ''https://acme.test'' ''home'') = 50"
  by code_simp

text \<open>
  C1. When the root fetch succeeds, a fetched page holds a qualifying text
  block, the enrichment of the extracted content succeeds with content whose nodes can
  all be rendered, and no transition is taken after the job budget, the job ends in
  \<^verbatim>\<open>Completed\<close> with a document of at least one page, which is what the caller
  receives.
\<close>

theorem generate_completes:
  assumes fetched:
      "SiteFetcher_fetch (fetcher pe) url (maxPages pe) (perRequestTimeout pe) = Inr ps"
    and block: "(u, h) \<in> set ps" "b \<in> set (text_blocks_of (extractor pe) h)"
      "minBlockLength (extractor pe) \<le> length b"
    and enriched:
      "\<And>site. ContentExtractor_extract (extractor pe) ps = Inr site \<Longrightarrow>
         \<exists>bc. enrich (enricher pe) site name = Inr bc \<and>
              list_all (renderable (assembler pe)) (concat (map content_nodes bc))"
    and in_time: "\<forall>k \<in> {1..5}. clock pe k - clock pe 0 \<le> jobBudget pe"
  shows "\<exists>d. state (generate pe name url) = Completed d \<and> 1 \<le> pageCount d \<and>
             delivered (generate pe name url) = Some (Inr d) \<and>
             failureReason (generate pe name url) = None"
proof -
  obtain site where site: "ContentExtractor_extract (extractor pe) ps = Inr site"
    using extract_succeeds [OF block] by blast
  then obtain bc where bc: "enrich (enricher pe) site name = Inr bc"
    and nodes: "list_all (renderable (assembler pe)) (concat (map content_nodes bc))"
    using enriched by blast
  obtain d where d: "assemble (assembler pe) (clock pe 5) bc name = Inr d"
    using assemble_succeeds [OF nodes] by blast
  have "satisfies_invariant bc"
    using enrich_validated [OF bc] validate_invariant by blast
  then have "bc \<noteq> []"
    using invariant_counts by blast
  then have "1 \<le> length bc"
    by (cases bc) simp_all
  then have "1 \<le> pageCount d"
    using assemble_pageCount [OF d] by simp
  moreover have "generate pe name url =
     \<lparr>job_companyName = name, job_companyUrl = url, state = Completed d,
      startedAt = clock pe 0, completedAt = Some (clock pe 5), failureReason = None\<rparr>"
    using fetched site bc d in_time by (rule generate_completes_aux)
  ultimately show ?thesis
    by (simp add: delivered_def)
qed

theorem generate_completes_witness:
  "SiteFetcher_fetch (acme_web True) ''acme.test'' 2 10 =
     Inr [(''https://acme.test'', ''home''), (''https://acme.test/pppppppp'', ''sub'')] \<and>
   text_blocks_of acme_extractor ''home'' = [''Acme builds reliable rockets.'', ''Menu''] \<and>
   (\<exists>d. state (generate (acme_pipeline corrected_backend) ''Acme'' ''acme.test'') = Completed d \<and>
        1 \<le> pageCount d \<and>
        delivered (generate (acme_pipeline corrected_backend) ''Acme'' ''acme.test'') = Some (Inr d))"
proof -
  let ?pe = "acme_pipeline corrected_backend"
  have f: "SiteFetcher_fetch (fetcher ?pe) ''acme.test'' (maxPages ?pe) (perRequestTimeout ?pe) =
     Inr [(''https://acme.test'', ''home''), (''https://acme.test/pppppppp'', ''sub'')]"
    using acme_fetch_two by (simp add: acme_pipeline_def)
  have b: "(''https://acme.test'', ''home'') \<in>
       set [(''https://acme.test'', ''home''), (''https://acme.test/pppppppp'', ''sub'')]"
    "''Acme builds reliable rockets.'' \<in> set (text_blocks_of (extractor ?pe) ''home'')"
    "minBlockLength (extractor ?pe) \<le> length ''Acme builds reliable rockets.''"
    by (simp_all add: acme_pipeline_def acme_extractor_def)
  have e: "\<exists>bc. enrich (enricher ?pe) site ''Acme'' = Inr bc \<and>
              list_all (renderable (assembler ?pe)) (concat (map content_nodes bc))" for site
    using enrich_corrected_any [of site "''Acme''"]
    by (simp add: acme_pipeline_def acme_assembler_def list_all_iff)
  have t: "\<forall>k \<in> {1..5}. clock ?pe k - clock ?pe 0 \<le> jobBudget ?pe"
    by (simp add: acme_pipeline_def)
  show ?thesis
    using generate_completes [OF f b e t] acme_fetch_two
    by (auto simp: acme_extractor_def)
qed

text \<open>
  Without the conditions on the later stages the job of C1 can fail: the site below is
  fetched and holds a qualifying block, and the job ends in \<^verbatim>\<open>Failed\<close> when the backend
  is unreachable, when the budget is exceeded, and when a content node cannot be rendered.
\<close>

theorem generate_outage_counterexample:
  "SiteFetcher_fetch (fetcher (acme_pipeline backend_outage)) ''acme.test''
       (maxPages (acme_pipeline backend_outage)) (perRequestTimeout (acme_pipeline backend_outage)) =
     Inr [(''https://acme.test'', ''home''), (''https://acme.test/pppppppp'', ''sub'')] \<and>
   text_blocks_of (extractor (acme_pipeline backend_outage)) ''home'' =
     [''Acme builds reliable rockets.'', ''Menu''] \<and>
   minBlockLength (extractor (acme_pipeline backend_outage)) \<le>
     length ''Acme builds reliable rockets.'' \<and>
   state (generate (acme_pipeline backend_outage) ''Acme'' ''acme.test'') =
     Failed EnrichmentUnavailable \<and>
   delivered (generate (acme_pipeline backend_outage) ''Acme'' ''acme.test'') =
     Some (Inl EnrichmentUnavailable) \<and>
   delivered (generate ((acme_pipeline corrected_backend)\<lparr>jobBudget := 30\<rparr>)
       ''Acme'' ''acme.test'') =
     Some (Inl Timeout) \<and>
   delivered (generate ((acme_pipeline corrected_backend)
       \<lparr>assembler := acme_assembler\<lparr>renderable := (\<lambda>s. s \<noteq> ''hello@acme.test'')\<rparr>\<rparr>)
       ''Acme'' ''acme.test'') =
     Some (Inl RenderFailure)"
  by code_simp

text \<open>
  C5. Content that NarrativeEnricher returns has exactly one cover section, in first
  position, and exactly one callToAction or contact section, in last position, with
  sections of the other types only in between, whatever the backend replied.
\<close>

theorem enrich_invariant:
  assumes "enrich ne site name = Inr bc"
  shows "bc \<noteq> [] \<and> sectionType (hd bc) = Cover \<and>
         length (filter (\<lambda>s. sectionType s = Cover) bc) = 1 \<and>
         is_closing (sectionType (last bc)) \<and>
         length (filter (\<lambda>s. is_closing (sectionType s)) bc) = 1 \<and>
         (\<forall>s \<in> set (butlast (tl bc)). is_body (sectionType s))"
  using enrich_validated [OF assms] validate_invariant invariant_counts by blast

theorem enrich_invariant_witness:
  "validate shuffled_reply = None \<and>
   enrich corrected_backend acme_site ''Acme'' = Inr ordered_content \<and>
   map sectionType ordered_content = [Cover, AboutSection, ContactSection] \<and>
   length (filter (\<lambda>s. sectionType s = Cover) ordered_content) = 1 \<and>
   length (filter (\<lambda>s. is_closing (sectionType s)) ordered_content) = 1"
  using enrich_invariant [OF enrich_corrected_any [of acme_site "''Acme''"]]
    validate_shuffled enrich_corrected_any [of acme_site "''Acme''"]
  by (simp add: ordered_content_def)

text \<open>
  C6. For \<^verbatim>\<open>maxPages\<close> of at least 1 and a root fetch that succeeds, SiteFetcher
  returns the root page first and at most \<^verbatim>\<open>maxPages\<close> pages; the selected links hold as
  many links of the about, product and contact categories as fit; and when the fetch of
  every selected link succeeds the number of pages is the smaller of \<^verbatim>\<open>maxPages\<close> and one
  more than the number of candidate links (5 for 50 links and \<^verbatim>\<open>maxPages = 5\<close>).
\<close>

theorem SiteFetcher_fetch_bounded:
  assumes "SiteFetcher_fetch fe url n t = Inr ps" and "0 < n"
  shows "\<exists>h. fetch_page fe t (normalize_url fe url) = Some (normalize_url fe url, h) \<and>
     (let cands = internal_candidates fe (normalize_url fe url) h;
          chosen = select_links fe n cands
      in ps = (normalize_url fe url, h) #
                List.map_filter (\<lambda>l. fetch_page fe t (target l)) chosen \<and>
         length ps \<le> n \<and>
         length (filter (high_value fe) chosen) =
           min (n - 1) (length (filter (high_value fe) cands)) \<and>
         ((\<forall>l \<in> set chosen. fetch_page fe t (target l) \<noteq> None) \<longrightarrow>
            length ps = min n (Suc (length cands))))"
proof -
  let ?root = "normalize_url fe url"
  from assms(1) obtain u h where f: "fetch_page fe t ?root = Some (u, h)"
    and ps: "ps = (u, h) # List.map_filter (\<lambda>l. fetch_page fe t (target l))
                (select_links fe n (internal_candidates fe ?root h))"
    by (auto simp: SiteFetcher_fetch_def Let_def split: option.splits)
  have u: "u = ?root" using f by (rule fetch_page_url)
  let ?cands = "internal_candidates fe ?root h"
  let ?chosen = "select_links fe n ?cands"
  have len: "length ?chosen = min (n - 1) (length ?cands)"
    by (simp add: select_links_def length_prioritize min.commute)
  have "length ps \<le> Suc (length ?chosen)"
    using ps length_map_filter_le [of _ ?chosen] by simp
  then have 1: "length ps \<le> n" using len assms(2) by simp
  have 2: "length ps = min n (Suc (length ?cands))"
    if "\<forall>l \<in> set ?chosen. fetch_page fe t (target l) \<noteq> None"
    using ps length_map_filter_all [OF that] len assms(2) by simp
  show ?thesis
    using f u ps 1 2 high_value_select [of fe n ?cands] by (simp add: Let_def)
qed

theorem SiteFetcher_fetch_bounded_witness:
  "length (internal_candidates (acme_web True) ''https://acme.test'' ''home'') = 50 \<and>
   SiteFetcher_fetch (acme_web True) ''acme.test'' 5 10 =
     Inr [(''https://acme.test'', ''home''), (''https://acme.test/pppppppp'', ''sub''),
          (''https://acme.test/ppppppppppppppppppppppppppppppp'', ''sub''),
          (''https://acme.test/p'', ''sub''), (''https://acme.test/pp'', ''sub'')] \<and>
   length [(''https://acme.test'', ''home''), (''https://acme.test/pppppppp'', ''sub''),
          (''https://acme.test/ppppppppppppppppppppppppppppppp'', ''sub''),
          (''https://acme.test/p'', ''sub''), (''https://acme.test/pp'', ''sub'')] \<le> (5::nat)"
  using SiteFetcher_fetch_bounded [OF acme_fetch_five] acme_fetch_five acme_candidates [of True]
  by simp

text \<open>
  Without the conditions of C6 the count fails: with 50 internal links and
  \<^verbatim>\<open>maxPages = 5\<close> the fetcher returns the root page alone when the sub-pages answer
  404, and for \<^verbatim>\<open>maxPages = 0\<close> it still returns the root page.
\<close>

theorem SiteFetcher_fetch_down_counterexample:
  "length (internal_candidates (acme_web False) ''https://acme.test'' ''home'') = 50 \<and>
   fetch_page (acme_web False) 10 (normalize_url (acme_web False) ''acme.test'') =
     Some (''https://acme.test'', ''home'') \<and>
   SiteFetcher_fetch (acme_web False) ''acme.test'' 5 10 = Inr [(''https://acme.test'', ''home'')] \<and>
   SiteFetcher_fetch (acme_web True) ''acme.test'' 0 10 = Inr [(''https://acme.test'', ''home'')]"
  by code_simp

end
